theory Spec2Isabelle
  imports Main "HOL-Library.Multiset" "HOL-Library.Char_ord" "HOL-Library.List_Lexorder"
begin

section \<open>Data model (shared/schema.ts)\<close>

text \<open>
  Every table of the schema is a record; a table is the list of its rows in the order in
  which they were inserted. Field names carry a prefix per table, since the tables share
  column names (\<open>id\<close>, \<open>title\<close>, \<open>status\<close>, \<open>createdAt\<close>).

  \<^item> \<open>serial\<close> and \<open>integer\<close> columns are \<open>int\<close>;
  \<^item> \<open>decimal(15,2)\<close> columns are \<open>int\<close>, counting hundredths, so that the order of the
    model is the numeric order of the database;
  \<^item> \<open>timestamp\<close> and \<open>date\<close> columns are \<open>int\<close> (a point on the time line); the
    columns \<open>createdAt\<close>/\<open>updatedAt\<close> are filled by \<open>defaultNow()\<close> on every insert the
    program makes (the insert schemas omit them), so they are never null;
  \<^item> a nullable column is an \<open>option\<close>.
\<close>

type_synonym decimal = int
type_synonym time = int

record project =
  p_id :: int
  p_identifier :: string
  p_title :: string
  p_axis :: string
  p_domain :: string
  p_region :: string
  p_province :: string
  p_commune :: string
  p_budget :: decimal
  p_engagements :: "decimal option"
  p_payments :: "decimal option"
  p_physicalProgress :: "int option"
  p_status :: string
  p_createdAt :: time
  p_updatedAt :: time

record convention =
  c_id :: int
  c_title :: string
  c_dateVisa :: "time option"
  c_status :: string
  c_programme :: string
  c_documentUrl :: "string option"
  c_createdAt :: time
  c_updatedAt :: time

record partner =
  pa_id :: int
  pa_name :: string
  pa_type :: string
  pa_createdAt :: time

record project_partner =
  pp_id :: int
  pp_projectId :: int
  pp_partnerId :: int
  pp_year :: int
  pp_plannedContribution :: decimal
  pp_actualContribution :: "decimal option"
  pp_status :: string

record convention_project =
  cp_id :: int
  cp_conventionId :: int
  cp_projectId :: int
  cp_createdAt :: time

record financial_advance =
  fa_id :: int
  fa_projectId :: int
  fa_referenceDate :: time
  fa_engagement :: decimal
  fa_payment :: decimal
  fa_createdAt :: time

record local_user =
  u_id :: int
  u_username :: string
  u_password :: string
  u_role :: string
  u_createdAt :: time
  u_updatedAt :: time

text \<open>
  The insert types (\<open>z.infer\<close> of the insert schemas). A column with a default may be left
  out (\<open>None\<close>); a nullable column with a default may be left out, or given as null
  (\<open>Some None\<close>). The numeric text of a decimal is taken as already read.
\<close>

record insert_project =
  ip_identifier :: string
  ip_title :: string
  ip_axis :: string
  ip_domain :: string
  ip_region :: string
  ip_province :: string
  ip_commune :: string
  ip_budget :: decimal
  ip_engagements :: "decimal option option"
  ip_payments :: "decimal option option"
  ip_physicalProgress :: "int option option"
  ip_status :: "string option"

text \<open>\<open>Partial<InsertProject>\<close>: every field may be absent.\<close>

record partial_project =
  pt_identifier :: "string option"
  pt_title :: "string option"
  pt_axis :: "string option"
  pt_domain :: "string option"
  pt_region :: "string option"
  pt_province :: "string option"
  pt_commune :: "string option"
  pt_budget :: "decimal option"
  pt_engagements :: "decimal option option"
  pt_payments :: "decimal option option"
  pt_physicalProgress :: "int option option"
  pt_status :: "string option"

record insert_convention =
  ic_title :: string
  ic_dateVisa :: "time option option"
  ic_status :: string
  ic_programme :: string
  ic_documentUrl :: "string option option"

record partial_convention =
  ct_title :: "string option"
  ct_dateVisa :: "time option option"
  ct_status :: "string option"
  ct_programme :: "string option"
  ct_documentUrl :: "string option option"

record insert_partner =
  ipa_name :: string
  ipa_type :: string

record insert_project_partner =
  ipp_projectId :: int
  ipp_partnerId :: int
  ipp_year :: int
  ipp_plannedContribution :: decimal
  ipp_actualContribution :: "decimal option option"
  ipp_status :: "string option"

record insert_convention_project =
  icp_conventionId :: int
  icp_projectId :: int

record insert_financial_advance =
  ifa_projectId :: int
  ifa_referenceDate :: time
  ifa_engagement :: decimal
  ifa_payment :: decimal

record insert_local_user =
  iu_username :: string
  iu_password :: string
  iu_role :: "string option"

record partial_local_user =
  ut_username :: "string option"
  ut_password :: "string option"
  ut_role :: "string option"

text \<open>The database: one list of rows per table.\<close>

record store =
  projects :: "project list"
  conventions :: "convention list"
  partners :: "partner list"
  projectPartners :: "project_partner list"
  conventionProjects :: "convention_project list"
  financialAdvances :: "financial_advance list"
  localUsers :: "local_user list"

section \<open>What the program takes from outside\<close>

text \<open>
  The storage layer hands every query to PostgreSQL through drizzle and every password to
  bcrypt; the insert schemas are generated by drizzle-zod. None of them is code of this
  repository, so they are parameters of the model:

  \<^item> \<open>order_*\<close>: the rows a query with \<open>ORDER BY column direction\<close> returns, given the
    rows it selects. The program names a column and a direction; which permutation
    comes back is the database's answer.
  \<^item> \<open>sql_like text pattern\<close>: the database's \<open>LIKE\<close>.
  \<^item> \<open>bcrypt_hash password rounds salt\<close> and \<open>bcrypt_compare password hash\<close>.
  \<^item> \<open>zod_integer n\<close>: whether a generated insert schema accepts the number \<open>n\<close> for an
    \<open>integer\<close> column (a schema may bound the number by the range of the column or accept
    every integer; the database refuses what the column cannot hold in either case).
\<close>

datatype order_dir = Asc | Desc

datatype project_column = Identifier | Title | Axis | Domain | Budget | CreatedAt

record ext =
  order_projects :: "project_column \<Rightarrow> order_dir \<Rightarrow> project list \<Rightarrow> project list"
  order_conventions :: "order_dir \<Rightarrow> convention list \<Rightarrow> convention list"
  order_partners :: "order_dir \<Rightarrow> partner list \<Rightarrow> partner list"
  order_advances :: "order_dir \<Rightarrow> financial_advance list \<Rightarrow> financial_advance list"
  sql_like :: "string \<Rightarrow> string \<Rightarrow> bool"
  bcrypt_hash :: "string \<Rightarrow> nat \<Rightarrow> string \<Rightarrow> string"
  bcrypt_compare :: "string \<Rightarrow> string \<Rightarrow> bool"
  zod_integer :: "int \<Rightarrow> bool"

text \<open>
  What a request finds when it runs: the clock (\<open>new Date()\<close>, \<open>defaultNow()\<close>), the next
  value of the \<open>serial\<close> sequence of the table it inserts into, and the salt bcrypt draws.
\<close>

record ctx =
  now :: time
  nextval :: int
  salt :: string

text \<open>
  The contract of \<open>ORDER BY\<close>: the answer is a rearrangement of the selected rows in
  which the keys do not decrease (\<open>Asc\<close>) or do not increase (\<open>Desc\<close>). SQL leaves the
  order of rows with equal keys to the database. Text columns are compared under the
  collation of the database, which the contract leaves open.
\<close>

fun ordered :: "order_dir \<Rightarrow> ('a \<Rightarrow> int) \<Rightarrow> 'a list \<Rightarrow> bool" where
  "ordered Asc key rows = sorted_wrt (\<lambda>a b. key a \<le> key b) rows"
| "ordered Desc key rows = sorted_wrt (\<lambda>a b. key a \<ge> key b) rows"

fun project_ordered :: "project_column \<Rightarrow> order_dir \<Rightarrow> project list \<Rightarrow> bool" where
  "project_ordered Budget d rows = ordered d p_budget rows"
| "project_ordered CreatedAt d rows = ordered d p_createdAt rows"
| "project_ordered _ d rows = True"

definition sql_order_by :: "ext \<Rightarrow> bool" where
  "sql_order_by X \<longleftrightarrow>
     (\<forall>c d rows. mset (order_projects X c d rows) = mset rows
                \<and> project_ordered c d (order_projects X c d rows))"

section \<open>Storage (server/storage.ts)\<close>

text \<open>
  The \<open>id\<close> columns are \<open>serial\<close> and the foreign keys \<open>integer\<close>: four bytes. A statement
  that compares or fills such a column with a number outside this range is refused by
  the database (\<open>OutOfRange\<close>), whatever the table holds. The numbers of a body that a
  schema has accepted are taken to fit their columns, as its decimals are taken as read;
  the \<open>:id\<close> of the path is any number \<open>parseInt\<close> returns.
\<close>

datatype db_error = UniqueViolation | OutOfRange | NotFound

definition int4 :: "int \<Rightarrow> bool" where
  "int4 i \<longleftrightarrow> - 2147483648 \<le> i \<and> i \<le> 2147483647"

subsection \<open>Projects\<close>

text \<open>
  \<open>getProjects(search?, sortBy?, sortOrder = "asc")\<close>. \<open>select_projects\<close> is the query
  after the optional \<open>where title like '%search%'\<close> (\<open>if (search)\<close> is false for an
  absent and for an empty string).
\<close>

definition select_projects :: "ext \<Rightarrow> store \<Rightarrow> string option \<Rightarrow> project list" where
  "select_projects X st search =
     (case search of
        None \<Rightarrow> projects st
      | Some s \<Rightarrow>
          if s = [] then projects st
          else filter (\<lambda>p. sql_like X (p_title p) (''%'' @ s @ ''%'')) (projects st))"

definition getProjects ::
  "ext \<Rightarrow> store \<Rightarrow> string option \<Rightarrow> string option \<Rightarrow> string option \<Rightarrow> project list" where
  "getProjects X st search sortBy sortOrder =
     (let sortOrder' = (case sortOrder of None \<Rightarrow> ''asc'' | Some s \<Rightarrow> s);
          query = select_projects X st search;
          orderFunc = (if sortOrder' = ''desc'' then Desc else Asc)
      in case sortBy of
           None \<Rightarrow> order_projects X CreatedAt orderFunc query
         | Some sb \<Rightarrow>
             if sb = [] then order_projects X CreatedAt orderFunc query
             else if sb = ''identifier'' then order_projects X Identifier orderFunc query
             else if sb = ''title'' then order_projects X Title orderFunc query
             else if sb = ''axis'' then order_projects X Axis orderFunc query
             else if sb = ''domain'' then order_projects X Domain orderFunc query
             else if sb = ''budget'' then order_projects X Budget orderFunc query
             else order_projects X CreatedAt orderFunc query)"

definition getProject :: "store \<Rightarrow> int \<Rightarrow> db_error + project option" where
  "getProject st i =
     (if \<not> int4 i then Inl OutOfRange else Inr (find (\<lambda>p. p_id p = i) (projects st)))"

definition getProjectByIdentifier :: "store \<Rightarrow> string \<Rightarrow> project option" where
  "getProjectByIdentifier st ident = find (\<lambda>p. p_identifier p = ident) (projects st)"

text \<open>
  \<open>insert into projects values (...) returning *\<close>. The database fills \<open>id\<close> from the
  sequence, the absent columns from their defaults, and refuses a row whose \<open>id\<close>
  (primary key) or \<open>identifier\<close> (unique) is already in the table.
\<close>

definition new_project :: "ctx \<Rightarrow> insert_project \<Rightarrow> project" where
  "new_project c ip =
     \<lparr> p_id = nextval c,
       p_identifier = ip_identifier ip,
       p_title = ip_title ip,
       p_axis = ip_axis ip,
       p_domain = ip_domain ip,
       p_region = ip_region ip,
       p_province = ip_province ip,
       p_commune = ip_commune ip,
       p_budget = ip_budget ip,
       p_engagements = (case ip_engagements ip of None \<Rightarrow> Some 0 | Some v \<Rightarrow> v),
       p_payments = (case ip_payments ip of None \<Rightarrow> Some 0 | Some v \<Rightarrow> v),
       p_physicalProgress = (case ip_physicalProgress ip of None \<Rightarrow> Some 0 | Some v \<Rightarrow> v),
       p_status = (case ip_status ip of None \<Rightarrow> ''active'' | Some v \<Rightarrow> v),
       p_createdAt = now c,
       p_updatedAt = now c \<rparr>"

definition createProject :: "ctx \<Rightarrow> insert_project \<Rightarrow> store \<Rightarrow> db_error + (project \<times> store)" where
  "createProject c ip st =
     (let newProject = new_project c ip
      in if list_ex (\<lambda>q. p_id q = p_id newProject \<or> p_identifier q = p_identifier newProject)
              (projects st)
         then Inl UniqueViolation
         else Inr (newProject, st\<lparr>projects := projects st @ [newProject]\<rparr>))"

text \<open>\<open>.set({ ...project, updatedAt: new Date() })\<close>: an absent field keeps its column.\<close>

fun set_col :: "'a option \<Rightarrow> 'a \<Rightarrow> 'a" where
  "set_col None old = old"
| "set_col (Some v) old = v"

definition set_project :: "time \<Rightarrow> partial_project \<Rightarrow> project \<Rightarrow> project" where
  "set_project t pt p =
     p\<lparr> p_identifier := set_col (pt_identifier pt) (p_identifier p),
        p_title := set_col (pt_title pt) (p_title p),
        p_axis := set_col (pt_axis pt) (p_axis p),
        p_domain := set_col (pt_domain pt) (p_domain p),
        p_region := set_col (pt_region pt) (p_region p),
        p_province := set_col (pt_province pt) (p_province p),
        p_commune := set_col (pt_commune pt) (p_commune p),
        p_budget := set_col (pt_budget pt) (p_budget p),
        p_engagements := set_col (pt_engagements pt) (p_engagements p),
        p_payments := set_col (pt_payments pt) (p_payments p),
        p_physicalProgress := set_col (pt_physicalProgress pt) (p_physicalProgress p),
        p_status := set_col (pt_status pt) (p_status p),
        p_updatedAt := t \<rparr>"

text \<open>
  \<open>update projects set ... where id = i returning *\<close>; the function returns the first
  returned row, \<open>undefined\<close> (\<open>None\<close>) when the statement touched no row. The database
  refuses the statement when \<open>i\<close> is outside the range of the column, and when a touched
  row would take the \<open>identifier\<close> of another row.
\<close>

definition updateProject ::
  "ctx \<Rightarrow> int \<Rightarrow> partial_project \<Rightarrow> store \<Rightarrow> db_error + (project option \<times> store)" where
  "updateProject c i pt st =
     (let rows = map (\<lambda>p. if p_id p = i then set_project (now c) pt p else p) (projects st)
      in if \<not> int4 i then Inl OutOfRange
         else if list_ex (\<lambda>p. p_id p = i \<and>
                list_ex (\<lambda>q. p_id q \<noteq> i \<and> p_identifier q = p_identifier (set_project (now c) pt p))
                  (projects st))
              (projects st)
         then Inl UniqueViolation
         else Inr (find (\<lambda>p. p_id p = i) rows, st\<lparr>projects := rows\<rparr>))"

text \<open>
  \<open>delete from projects where id = i\<close>; the function looks at no result. The database
  refuses the statement when \<open>i\<close> is outside the range of the column.
\<close>

definition deleteProject :: "int \<Rightarrow> store \<Rightarrow> db_error + store" where
  "deleteProject i st =
     (if \<not> int4 i then Inl OutOfRange
      else Inr (st\<lparr>projects := filter (\<lambda>p. p_id p \<noteq> i) (projects st)\<rparr>))"

subsection \<open>Conventions\<close>

definition getConventions :: "ext \<Rightarrow> store \<Rightarrow> convention list" where
  "getConventions X st = order_conventions X Desc (conventions st)"

definition getConvention :: "store \<Rightarrow> int \<Rightarrow> db_error + convention option" where
  "getConvention st i =
     (if \<not> int4 i then Inl OutOfRange else Inr (find (\<lambda>v. c_id v = i) (conventions st)))"

definition createConvention ::
  "ctx \<Rightarrow> insert_convention \<Rightarrow> store \<Rightarrow> db_error + (convention \<times> store)" where
  "createConvention c ic st =
     (let newConvention =
            \<lparr> c_id = nextval c,
              c_title = ic_title ic,
              c_dateVisa = (case ic_dateVisa ic of None \<Rightarrow> None | Some v \<Rightarrow> v),
              c_status = ic_status ic,
              c_programme = ic_programme ic,
              c_documentUrl = (case ic_documentUrl ic of None \<Rightarrow> None | Some v \<Rightarrow> v),
              c_createdAt = now c,
              c_updatedAt = now c \<rparr>
      in if list_ex (\<lambda>q. c_id q = nextval c) (conventions st) then Inl UniqueViolation
         else Inr (newConvention, st\<lparr>conventions := conventions st @ [newConvention]\<rparr>))"

definition set_convention :: "time \<Rightarrow> partial_convention \<Rightarrow> convention \<Rightarrow> convention" where
  "set_convention t ct v =
     v\<lparr> c_title := set_col (ct_title ct) (c_title v),
        c_dateVisa := set_col (ct_dateVisa ct) (c_dateVisa v),
        c_status := set_col (ct_status ct) (c_status v),
        c_programme := set_col (ct_programme ct) (c_programme v),
        c_documentUrl := set_col (ct_documentUrl ct) (c_documentUrl v),
        c_updatedAt := t \<rparr>"

definition updateConvention ::
  "ctx \<Rightarrow> int \<Rightarrow> partial_convention \<Rightarrow> store \<Rightarrow> db_error + (convention option \<times> store)" where
  "updateConvention c i ct st =
     (let rows = map (\<lambda>v. if c_id v = i then set_convention (now c) ct v else v) (conventions st)
      in if \<not> int4 i then Inl OutOfRange
         else Inr (find (\<lambda>v. c_id v = i) rows, st\<lparr>conventions := rows\<rparr>))"

definition deleteConvention :: "int \<Rightarrow> store \<Rightarrow> db_error + store" where
  "deleteConvention i st =
     (if \<not> int4 i then Inl OutOfRange
      else Inr (st\<lparr>conventions := filter (\<lambda>v. c_id v \<noteq> i) (conventions st)\<rparr>))"

subsection \<open>Partners\<close>

definition getPartners :: "ext \<Rightarrow> store \<Rightarrow> partner list" where
  "getPartners X st = order_partners X Asc (partners st)"

definition createPartner :: "ctx \<Rightarrow> insert_partner \<Rightarrow> store \<Rightarrow> db_error + (partner \<times> store)" where
  "createPartner c ipa st =
     (let newPartner =
            \<lparr> pa_id = nextval c, pa_name = ipa_name ipa, pa_type = ipa_type ipa,
              pa_createdAt = now c \<rparr>
      in if list_ex (\<lambda>q. pa_id q = nextval c) (partners st) then Inl UniqueViolation
         else Inr (newPartner, st\<lparr>partners := partners st @ [newPartner]\<rparr>))"

subsection \<open>Junction tables and financial advances\<close>

text \<open>
  \<open>left join\<close>: every row of the left table, once with each matching row of the right
  table, or once with null when none matches.
\<close>

definition left_join :: "'a list \<Rightarrow> 'b list \<Rightarrow> ('a \<Rightarrow> 'b \<Rightarrow> bool) \<Rightarrow> ('a \<times> 'b option) list" where
  "left_join xs ys on =
     concat (map (\<lambda>x. case filter (on x) ys of
                         [] \<Rightarrow> [(x, None)]
                       | m # ms \<Rightarrow> map (\<lambda>y. (x, Some y)) (m # ms)) xs)"

definition getProjectPartners ::
  "store \<Rightarrow> int \<Rightarrow> db_error + (project_partner \<times> partner option) list" where
  "getProjectPartners st projectId =
     (if \<not> int4 projectId then Inl OutOfRange
      else Inr (filter (\<lambda>(pp, pa). pp_projectId pp = projectId)
                  (left_join (projectPartners st) (partners st)
                     (\<lambda>pp pa. pp_partnerId pp = pa_id pa))))"

definition createProjectPartner ::
  "ctx \<Rightarrow> insert_project_partner \<Rightarrow> store \<Rightarrow> db_error + (project_partner \<times> store)" where
  "createProjectPartner c ipp st =
     (let newProjectPartner =
            \<lparr> pp_id = nextval c,
              pp_projectId = ipp_projectId ipp,
              pp_partnerId = ipp_partnerId ipp,
              pp_year = ipp_year ipp,
              pp_plannedContribution = ipp_plannedContribution ipp,
              pp_actualContribution =
                (case ipp_actualContribution ipp of None \<Rightarrow> Some 0 | Some v \<Rightarrow> v),
              pp_status = (case ipp_status ipp of None \<Rightarrow> ''pending'' | Some v \<Rightarrow> v) \<rparr>
      in if \<not> int4 (ipp_projectId ipp) then Inl OutOfRange
         else if list_ex (\<lambda>q. pp_id q = nextval c) (projectPartners st) then Inl UniqueViolation
         else Inr (newProjectPartner,
                   st\<lparr>projectPartners := projectPartners st @ [newProjectPartner]\<rparr>))"

definition getConventionProjects ::
  "store \<Rightarrow> int \<Rightarrow> db_error + (convention_project \<times> project option) list" where
  "getConventionProjects st conventionId =
     (if \<not> int4 conventionId then Inl OutOfRange
      else Inr (filter (\<lambda>(cp, p). cp_conventionId cp = conventionId)
                  (left_join (conventionProjects st) (projects st)
                     (\<lambda>cp p. cp_projectId cp = p_id p))))"

definition createConventionProject ::
  "ctx \<Rightarrow> insert_convention_project \<Rightarrow> store \<Rightarrow> db_error + (convention_project \<times> store)" where
  "createConventionProject c icp st =
     (let newConventionProject =
            \<lparr> cp_id = nextval c,
              cp_conventionId = icp_conventionId icp,
              cp_projectId = icp_projectId icp,
              cp_createdAt = now c \<rparr>
      in if \<not> int4 (icp_conventionId icp) then Inl OutOfRange
         else if list_ex (\<lambda>q. cp_id q = nextval c) (conventionProjects st) then Inl UniqueViolation
         else Inr (newConventionProject,
                   st\<lparr>conventionProjects := conventionProjects st @ [newConventionProject]\<rparr>))"

definition getFinancialAdvances ::
  "ext \<Rightarrow> store \<Rightarrow> int \<Rightarrow> db_error + financial_advance list" where
  "getFinancialAdvances X st projectId =
     (if \<not> int4 projectId then Inl OutOfRange
      else Inr (order_advances X Desc
                  (filter (\<lambda>a. fa_projectId a = projectId) (financialAdvances st))))"

definition createFinancialAdvance ::
  "ctx \<Rightarrow> insert_financial_advance \<Rightarrow> store \<Rightarrow> db_error + (financial_advance \<times> store)" where
  "createFinancialAdvance c ifa st =
     (let newFinancialAdvance =
            \<lparr> fa_id = nextval c,
              fa_projectId = ifa_projectId ifa,
              fa_referenceDate = ifa_referenceDate ifa,
              fa_engagement = ifa_engagement ifa,
              fa_payment = ifa_payment ifa,
              fa_createdAt = now c \<rparr>
      in if \<not> int4 (ifa_projectId ifa) then Inl OutOfRange
         else if list_ex (\<lambda>q. fa_id q = nextval c) (financialAdvances st) then Inl UniqueViolation
         else Inr (newFinancialAdvance,
                   st\<lparr>financialAdvances := financialAdvances st @ [newFinancialAdvance]\<rparr>))"

subsection \<open>Local users\<close>

definition getLocalUser :: "store \<Rightarrow> string \<Rightarrow> local_user option" where
  "getLocalUser st username = find (\<lambda>u. u_username u = username) (localUsers st)"

text \<open>
  \<open>createLocalUser\<close> hashes the password (\<open>bcrypt.hash(user.password, 10)\<close>) and inserts
  the user with the hash in place of the password. The database refuses a second row with
  the same \<open>id\<close> or \<open>username\<close>.
\<close>

definition createLocalUser ::
  "ext \<Rightarrow> ctx \<Rightarrow> insert_local_user \<Rightarrow> store \<Rightarrow> db_error + (local_user \<times> store)" where
  "createLocalUser X c iu st =
     (let hashedPassword = bcrypt_hash X (iu_password iu) 10 (salt c);
          newUser =
            \<lparr> u_id = nextval c,
              u_username = iu_username iu,
              u_password = hashedPassword,
              u_role = (case iu_role iu of None \<Rightarrow> ''user'' | Some r \<Rightarrow> r),
              u_createdAt = now c,
              u_updatedAt = now c \<rparr>
      in if list_ex (\<lambda>q. u_id q = nextval c \<or> u_username q = iu_username iu) (localUsers st)
         then Inl UniqueViolation
         else Inr (newUser, st\<lparr>localUsers := localUsers st @ [newUser]\<rparr>))"

definition validateLocalUser :: "ext \<Rightarrow> store \<Rightarrow> string \<Rightarrow> string \<Rightarrow> local_user option" where
  "validateLocalUser X st username password =
     (case find (\<lambda>u. u_username u = username) (localUsers st) of
        None \<Rightarrow> None
      | Some user \<Rightarrow> if bcrypt_compare X password (u_password user) then Some user else None)"

text \<open>
  Modelled from the spec: \<open>getLocalUsers\<close>, \<open>updateLocalUser\<close> and \<open>deleteLocalUser\<close>,
  which the user routes call and the storage class of the source does not define. The
  spec: list returns the records; update "merges provided fields, refreshes updatedAt,
  fails with NotFound if id does not exist" and "treats an absent or empty password field
  as leave unchanged"; delete "fails with NotFound if id does not exist"; the password is
  "stored as a salted one-way hash".
\<close>

definition getLocalUsers :: "store \<Rightarrow> local_user list" where
  "getLocalUsers st = localUsers st"

definition set_local_user :: "ext \<Rightarrow> ctx \<Rightarrow> partial_local_user \<Rightarrow> local_user \<Rightarrow> local_user" where
  "set_local_user X c ut u =
     u\<lparr> u_username := set_col (ut_username ut) (u_username u),
        u_password := (case ut_password ut of
                         None \<Rightarrow> u_password u
                       | Some pw \<Rightarrow> if pw = [] then u_password u
                                   else bcrypt_hash X pw 10 (salt c)),
        u_role := set_col (ut_role ut) (u_role u),
        u_updatedAt := now c \<rparr>"

definition updateLocalUser ::
  "ext \<Rightarrow> ctx \<Rightarrow> int \<Rightarrow> partial_local_user \<Rightarrow> store \<Rightarrow> db_error + (local_user \<times> store)" where
  "updateLocalUser X c i ut st =
     (case find (\<lambda>u. u_id u = i) (localUsers st) of
        None \<Rightarrow> Inl NotFound
      | Some u \<Rightarrow>
          if list_ex (\<lambda>q. u_id q \<noteq> i \<and> u_username q = u_username (set_local_user X c ut u))
               (localUsers st)
          then Inl UniqueViolation
          else Inr (set_local_user X c ut u,
                    st\<lparr>localUsers :=
                         map (\<lambda>q. if u_id q = i then set_local_user X c ut q else q)
                           (localUsers st)\<rparr>))"

definition deleteLocalUser :: "int \<Rightarrow> store \<Rightarrow> db_error + store" where
  "deleteLocalUser i st =
     (if list_ex (\<lambda>u. u_id u = i) (localUsers st)
      then Inr (st\<lparr>localUsers := filter (\<lambda>u. u_id u \<noteq> i) (localUsers st)\<rparr>)
      else Inl NotFound)"

section \<open>Routes (server/routes.ts)\<close>

text \<open>
  A request names its route and carries the path parameter \<open>:id\<close> as \<open>parseInt\<close> reads it
  (\<open>None\<close> is \<open>NaN\<close>), the query string of \<open>GET /api/projects\<close> and a body. A body is
  given by what the schemas read from it: \<open>ProjectData d\<close> is a body that
  \<open>insertProjectSchema.parse\<close> accepts as \<open>d\<close>, \<open>ProjectPatch d\<close> one that
  \<open>insertProjectSchema.partial().parse\<close> accepts, and so on; every schema rejects a body
  of another kind with a \<open>ZodError\<close>. The login route reads the fields \<open>username\<close> and
  \<open>password\<close> of the body (\<open>Credentials\<close>); a body of another kind has neither. The
  session of the request holds the user stored at login, or nothing. The database and the
  session store are taken to be reachable.
\<close>

datatype route =
    AuthLogin | AuthLogout | AuthUser
  | GetProjects | GetProject | PostProject | PutProject | DeleteProject
  | GetConventions | GetConvention | PostConvention | PutConvention | DeleteConvention
  | GetPartners | PostPartner
  | GetProjectPartners | PostProjectPartner
  | GetConventionProjects | PostConventionProject
  | GetUsers | PostUser | PutUser | DeleteUser
  | GetFinancialAdvances | PostFinancialAdvance

datatype body =
    NoBody
  | Credentials "string option" "string option"
  | ProjectData insert_project
  | ProjectPatch partial_project
  | ConventionData insert_convention
  | ConventionPatch partial_convention
  | PartnerData insert_partner
  | ProjectPartnerData insert_project_partner
  | ConventionProjectData insert_convention_project
  | FinancialAdvanceData insert_financial_advance
  | UserData insert_local_user
  | UserPatch partial_local_user

record request =
  req_route :: route
  req_id :: "int option"
  req_search :: "string option"
  req_sortBy :: "string option"
  req_sortOrder :: "string option"
  req_body :: body

type_synonym session = "local_user option"

text \<open>
  What \<open>res.json\<close>/\<open>res.send\<close> write. \<open>UserView\<close> is the object
  \<open>{ id, username, role, createdAt }\<close> of the user routes, \<open>LoginSuccessful\<close> the object
  \<open>{ message, user: { id, username, role } }\<close>, \<open>SessionUser\<close> the user object of the
  session with all its fields, \<open>Undefined\<close> the empty body of \<open>res.json(undefined)\<close>.
\<close>

datatype json =
    Message string
  | InvalidData string
  | NoContent
  | Undefined
  | LoginSuccessful int string string
  | SessionUser local_user
  | ProjectJson project
  | ProjectsJson "project list"
  | ConventionJson convention
  | ConventionsJson "convention list"
  | PartnerJson partner
  | PartnersJson "partner list"
  | ProjectPartnerJson project_partner
  | ProjectPartnersJson "(project_partner \<times> partner option) list"
  | ConventionProjectJson convention_project
  | ConventionProjectsJson "(convention_project \<times> project option) list"
  | FinancialAdvanceJson financial_advance
  | FinancialAdvancesJson "financial_advance list"
  | UserView int string string time
  | UserViews "(int \<times> string \<times> string \<times> time) list"

record response =
  res_status :: nat
  res_json :: json

definition reply :: "nat \<Rightarrow> json \<Rightarrow> response" where
  "reply code j = \<lparr> res_status = code, res_json = j \<rparr>"

subsection \<open>Middleware\<close>

text \<open>A middleware answers the request itself (\<open>Some\<close>) or calls \<open>next()\<close> (\<open>None\<close>).\<close>

definition requireAuth :: "session \<Rightarrow> response option" where
  "requireAuth s =
     (case s of
        Some localUser \<Rightarrow> None
      | None \<Rightarrow> Some (reply 401 (Message ''Unauthorized'')))"

definition requireRole :: "string list \<Rightarrow> session \<Rightarrow> response option" where
  "requireRole roles s =
     (case s of
        None \<Rightarrow> Some (reply 401 (Message ''Unauthorized''))
      | Some localUser \<Rightarrow>
          if u_role localUser \<notin> set roles
          then Some (reply 403 (Message ''Insufficient permissions''))
          else None)"

definition canWrite :: "session \<Rightarrow> response option" where
  "canWrite = requireRole [''admin'', ''user'']"

definition canManageUsers :: "session \<Rightarrow> response option" where
  "canManageUsers = requireRole [''admin'']"

definition canRead :: "session \<Rightarrow> response option" where
  "canRead = requireRole [''admin'', ''user'', ''superviseur'']"

text \<open>The middleware each route is registered with; the three auth routes have none.\<close>

fun middleware :: "route \<Rightarrow> session \<Rightarrow> response option" where
  "middleware AuthLogin = (\<lambda>s. None)"
| "middleware AuthLogout = (\<lambda>s. None)"
| "middleware AuthUser = (\<lambda>s. None)"
| "middleware GetProjects = canRead"
| "middleware GetProject = canRead"
| "middleware PostProject = canWrite"
| "middleware PutProject = canWrite"
| "middleware DeleteProject = canWrite"
| "middleware GetConventions = canRead"
| "middleware GetConvention = canRead"
| "middleware PostConvention = canWrite"
| "middleware PutConvention = canWrite"
| "middleware DeleteConvention = canWrite"
| "middleware GetPartners = canRead"
| "middleware PostPartner = canWrite"
| "middleware GetProjectPartners = requireAuth"
| "middleware PostProjectPartner = requireAuth"
| "middleware GetConventionProjects = requireAuth"
| "middleware PostConventionProject = requireAuth"
| "middleware GetUsers = canManageUsers"
| "middleware PostUser = canManageUsers"
| "middleware PutUser = canManageUsers"
| "middleware DeleteUser = canManageUsers"
| "middleware GetFinancialAdvances = canRead"
| "middleware PostFinancialAdvance = canWrite"

subsection \<open>Handlers\<close>

definition userView :: "local_user \<Rightarrow> int \<times> string \<times> string \<times> time" where
  "userView u = (u_id u, u_username u, u_role u, u_createdAt u)"

definition userViewJson :: "local_user \<Rightarrow> json" where
  "userViewJson u = UserView (u_id u) (u_username u) (u_role u) (u_createdAt u)"

text \<open>
  A handler returns the response, the store and the session it leaves. Every handler is
  a \<open>try\<close> block: a \<open>ZodError\<close> gives 400, any other error (here: the database refusing
  a statement, or \<open>NaN\<close> as an id) gives 500. Where the \<open>:id\<close> of the path is put into the
  body before the schema reads it, the schema sees it first, then the database.
\<close>

fun handler ::
  "ext \<Rightarrow> ctx \<Rightarrow> route \<Rightarrow> request \<Rightarrow> store \<Rightarrow> session \<Rightarrow> response \<times> store \<times> session" where
  "handler X c AuthLogin req st s =
     (case req_body req of
        Credentials (Some username) (Some password) \<Rightarrow>
          if username = [] \<or> password = []
          then (reply 400 (Message ''Username and password are required''), st, s)
          else (case validateLocalUser X st username password of
                  None \<Rightarrow> (reply 401 (Message ''Invalid credentials''), st, s)
                | Some user \<Rightarrow>
                    (reply 200 (LoginSuccessful (u_id user) (u_username user) (u_role user)),
                     st, Some user))
      | _ \<Rightarrow> (reply 400 (Message ''Username and password are required''), st, s))"
| "handler X c AuthLogout req st s = (reply 200 (Message ''Logout successful''), st, None)"
| "handler X c AuthUser req st s =
     (case s of
        Some localUser \<Rightarrow> (reply 200 (SessionUser localUser), st, s)
      | None \<Rightarrow> (reply 401 (Message ''Unauthorized''), st, s))"
| "handler X c GetProjects req st s =
     (reply 200 (ProjectsJson (getProjects X st (req_search req) (req_sortBy req) (req_sortOrder req))),
      st, s)"
| "handler X c GetProject req st s =
     (case req_id req of
        None \<Rightarrow> (reply 500 (Message ''Failed to fetch project''), st, s)
      | Some i \<Rightarrow>
          (case getProject st i of
             Inl e \<Rightarrow> (reply 500 (Message ''Failed to fetch project''), st, s)
           | Inr None \<Rightarrow> (reply 404 (Message ''Project not found''), st, s)
           | Inr (Some project) \<Rightarrow> (reply 200 (ProjectJson project), st, s)))"
| "handler X c PostProject req st s =
     (case req_body req of
        ProjectData projectData \<Rightarrow>
          (case createProject c projectData st of
             Inl e \<Rightarrow> (reply 500 (Message ''Failed to create project''), st, s)
           | Inr (project, st') \<Rightarrow> (reply 201 (ProjectJson project), st', s))
      | _ \<Rightarrow> (reply 400 (InvalidData ''Invalid project data''), st, s))"
| "handler X c PutProject req st s =
     (case req_body req of
        ProjectPatch projectData \<Rightarrow>
          (case req_id req of
             None \<Rightarrow> (reply 500 (Message ''Failed to update project''), st, s)
           | Some i \<Rightarrow>
               (case updateProject c i projectData st of
                  Inl e \<Rightarrow> (reply 500 (Message ''Failed to update project''), st, s)
                | Inr (None, st') \<Rightarrow> (reply 200 Undefined, st', s)
                | Inr (Some project, st') \<Rightarrow> (reply 200 (ProjectJson project), st', s)))
      | _ \<Rightarrow> (reply 400 (InvalidData ''Invalid project data''), st, s))"
| "handler X c DeleteProject req st s =
     (case req_id req of
        None \<Rightarrow> (reply 500 (Message ''Failed to delete project''), st, s)
      | Some i \<Rightarrow>
          (case deleteProject i st of
             Inl e \<Rightarrow> (reply 500 (Message ''Failed to delete project''), st, s)
           | Inr st' \<Rightarrow> (reply 204 NoContent, st', s)))"
| "handler X c GetConventions req st s = (reply 200 (ConventionsJson (getConventions X st)), st, s)"
| "handler X c GetConvention req st s =
     (case req_id req of
        None \<Rightarrow> (reply 500 (Message ''Failed to fetch convention''), st, s)
      | Some i \<Rightarrow>
          (case getConvention st i of
             Inl e \<Rightarrow> (reply 500 (Message ''Failed to fetch convention''), st, s)
           | Inr None \<Rightarrow> (reply 404 (Message ''Convention not found''), st, s)
           | Inr (Some convention) \<Rightarrow> (reply 200 (ConventionJson convention), st, s)))"
| "handler X c PostConvention req st s =
     (case req_body req of
        ConventionData conventionData \<Rightarrow>
          (case createConvention c conventionData st of
             Inl e \<Rightarrow> (reply 500 (Message ''Failed to create convention''), st, s)
           | Inr (convention, st') \<Rightarrow> (reply 201 (ConventionJson convention), st', s))
      | _ \<Rightarrow> (reply 400 (InvalidData ''Invalid convention data''), st, s))"
| "handler X c PutConvention req st s =
     (case req_body req of
        ConventionPatch conventionData \<Rightarrow>
          (case req_id req of
             None \<Rightarrow> (reply 500 (Message ''Failed to update convention''), st, s)
           | Some i \<Rightarrow>
               (case updateConvention c i conventionData st of
                  Inl e \<Rightarrow> (reply 500 (Message ''Failed to update convention''), st, s)
                | Inr (None, st') \<Rightarrow> (reply 200 Undefined, st', s)
                | Inr (Some convention, st') \<Rightarrow>
                    (reply 200 (ConventionJson convention), st', s)))
      | _ \<Rightarrow> (reply 400 (InvalidData ''Invalid convention data''), st, s))"
| "handler X c DeleteConvention req st s =
     (case req_id req of
        None \<Rightarrow> (reply 500 (Message ''Failed to delete convention''), st, s)
      | Some i \<Rightarrow>
          (case deleteConvention i st of
             Inl e \<Rightarrow> (reply 500 (Message ''Failed to delete convention''), st, s)
           | Inr st' \<Rightarrow> (reply 204 NoContent, st', s)))"
| "handler X c GetPartners req st s = (reply 200 (PartnersJson (getPartners X st)), st, s)"
| "handler X c PostPartner req st s =
     (case req_body req of
        PartnerData partnerData \<Rightarrow>
          (case createPartner c partnerData st of
             Inl e \<Rightarrow> (reply 500 (Message ''Failed to create partner''), st, s)
           | Inr (partner, st') \<Rightarrow> (reply 201 (PartnerJson partner), st', s))
      | _ \<Rightarrow> (reply 400 (InvalidData ''Invalid partner data''), st, s))"
| "handler X c GetProjectPartners req st s =
     (case req_id req of
        None \<Rightarrow> (reply 500 (Message ''Failed to fetch project partners''), st, s)
      | Some projectId \<Rightarrow>
          (case getProjectPartners st projectId of
             Inl e \<Rightarrow> (reply 500 (Message ''Failed to fetch project partners''), st, s)
           | Inr rows \<Rightarrow> (reply 200 (ProjectPartnersJson rows), st, s)))"
| "handler X c PostProjectPartner req st s =
     (case (req_body req, req_id req) of
        (ProjectPartnerData partnerData, Some projectId) \<Rightarrow>
          if \<not> zod_integer X projectId
          then (reply 400 (InvalidData ''Invalid project partner data''), st, s)
          else (case createProjectPartner c (partnerData\<lparr>ipp_projectId := projectId\<rparr>) st of
                  Inl e \<Rightarrow> (reply 500 (Message ''Failed to create project partner''), st, s)
                | Inr (projectPartner, st') \<Rightarrow>
                    (reply 201 (ProjectPartnerJson projectPartner), st', s))
      | _ \<Rightarrow> (reply 400 (InvalidData ''Invalid project partner data''), st, s))"
| "handler X c GetConventionProjects req st s =
     (case req_id req of
        None \<Rightarrow> (reply 500 (Message ''Failed to fetch convention projects''), st, s)
      | Some conventionId \<Rightarrow>
          (case getConventionProjects st conventionId of
             Inl e \<Rightarrow> (reply 500 (Message ''Failed to fetch convention projects''), st, s)
           | Inr rows \<Rightarrow> (reply 200 (ConventionProjectsJson rows), st, s)))"
| "handler X c PostConventionProject req st s =
     (case (req_body req, req_id req) of
        (ConventionProjectData projectData, Some conventionId) \<Rightarrow>
          if \<not> zod_integer X conventionId
          then (reply 400 (InvalidData ''Invalid convention project data''), st, s)
          else (case createConventionProject c
                       (projectData\<lparr>icp_conventionId := conventionId\<rparr>) st of
                  Inl e \<Rightarrow> (reply 500 (Message ''Failed to link project to convention''), st, s)
                | Inr (conventionProject, st') \<Rightarrow>
                    (reply 201 (ConventionProjectJson conventionProject), st', s))
      | _ \<Rightarrow> (reply 400 (InvalidData ''Invalid convention project data''), st, s))"
| "handler X c GetUsers req st s = (reply 200 (UserViews (map userView (getLocalUsers st))), st, s)"
| "handler X c PostUser req st s =
     (case req_body req of
        UserData userData \<Rightarrow>
          (case createLocalUser X c userData st of
             Inl e \<Rightarrow> (reply 500 (Message ''Failed to create user''), st, s)
           | Inr (user, st') \<Rightarrow> (reply 201 (userViewJson user), st', s))
      | _ \<Rightarrow> (reply 400 (InvalidData ''Invalid user data''), st, s))"
| "handler X c PutUser req st s =
     (case req_body req of
        UserPatch userData \<Rightarrow>
          (case req_id req of
             None \<Rightarrow> (reply 500 (Message ''Failed to update user''), st, s)
           | Some i \<Rightarrow>
               (case updateLocalUser X c i userData st of
                  Inl e \<Rightarrow> (reply 500 (Message ''Failed to update user''), st, s)
                | Inr (user, st') \<Rightarrow> (reply 200 (userViewJson user), st', s)))
      | _ \<Rightarrow> (reply 400 (InvalidData ''Invalid user data''), st, s))"
| "handler X c DeleteUser req st s =
     (case req_id req of
        None \<Rightarrow> (reply 500 (Message ''Failed to delete user''), st, s)
      | Some i \<Rightarrow>
          (case deleteLocalUser i st of
             Inl e \<Rightarrow> (reply 500 (Message ''Failed to delete user''), st, s)
           | Inr st' \<Rightarrow> (reply 204 NoContent, st', s)))"
| "handler X c GetFinancialAdvances req st s =
     (case req_id req of
        None \<Rightarrow> (reply 500 (Message ''Failed to fetch financial advances''), st, s)
      | Some projectId \<Rightarrow>
          (case getFinancialAdvances X st projectId of
             Inl e \<Rightarrow> (reply 500 (Message ''Failed to fetch financial advances''), st, s)
           | Inr rows \<Rightarrow> (reply 200 (FinancialAdvancesJson rows), st, s)))"
| "handler X c PostFinancialAdvance req st s =
     (case (req_body req, req_id req) of
        (FinancialAdvanceData advanceData, Some projectId) \<Rightarrow>
          if \<not> zod_integer X projectId
          then (reply 400 (InvalidData ''Invalid financial advance data''), st, s)
          else (case createFinancialAdvance c (advanceData\<lparr>ifa_projectId := projectId\<rparr>) st of
                  Inl e \<Rightarrow> (reply 500 (Message ''Failed to create financial advance''), st, s)
                | Inr (advance, st') \<Rightarrow> (reply 201 (FinancialAdvanceJson advance), st', s))
      | _ \<Rightarrow> (reply 400 (InvalidData ''Invalid financial advance data''), st, s))"

text \<open>
  Express runs the middleware of the route, then, if it called \<open>next()\<close>, the handler.
\<close>

definition serve ::
  "ext \<Rightarrow> ctx \<Rightarrow> request \<Rightarrow> store \<Rightarrow> session \<Rightarrow> response \<times> store \<times> session" where
  "serve X c req st s =
     (case middleware (req_route req) s of
        Some res \<Rightarrow> (res, st, s)
      | None \<Rightarrow> handler X c (req_route req) req st s)"

text \<open>The protected routes: those registered with a middleware.\<close>

definition protected :: "route \<Rightarrow> bool" where
  "protected r = (r \<noteq> AuthLogin \<and> r \<noteq> AuthLogout \<and> r \<noteq> AuthUser)"

section \<open>Two database engines\<close>

text \<open>
  Two engines that meet the contract of \<open>ORDER BY\<close>, for running the model on concrete
  stores. Both sort with the insertion sort of the library, which keeps rows with equal
  keys in the order in which it reads them. \<open>engine_fifo\<close> reads a table in insertion
  order, \<open>engine_lifo\<close> newest row first. Text is compared byte by byte, \<open>LIKE\<close>
  knows the wildcards \<open>%\<close> and \<open>_\<close>, and the schemas accept for an integer column the
  numbers the column can hold.
\<close>

fun sort_dir :: "order_dir \<Rightarrow> ('a \<Rightarrow> 'k::linorder) \<Rightarrow> 'a list \<Rightarrow> 'a list" where
  "sort_dir Asc key rows = sort_key key rows"
| "sort_dir Desc key rows = rev (sort_key key (rev rows))"

fun like_match :: "string \<Rightarrow> string \<Rightarrow> bool" where
  "like_match [] [] = True"
| "like_match (x # xs) [] = False"
| "like_match [] (c # cs) = (c = CHR ''%'' \<and> like_match [] cs)"
| "like_match (x # xs) (c # cs) =
     (if c = CHR ''%'' then like_match (x # xs) cs \<or> like_match xs (c # cs)
      else if c = CHR ''_'' then like_match xs cs
      else c = x \<and> like_match xs cs)"

fun sort_projects :: "project_column \<Rightarrow> order_dir \<Rightarrow> project list \<Rightarrow> project list" where
  "sort_projects Identifier d rows = sort_dir d p_identifier rows"
| "sort_projects Title d rows = sort_dir d p_title rows"
| "sort_projects Axis d rows = sort_dir d p_axis rows"
| "sort_projects Domain d rows = sort_dir d p_domain rows"
| "sort_projects Budget d rows = sort_dir d p_budget rows"
| "sort_projects CreatedAt d rows = sort_dir d p_createdAt rows"

text \<open>
  The bcrypt of the two engines is a stand-in with the interface of the library and one
  property of it: bcrypt reads the first 72 bytes of a password and ignores the rest.
  The stand-in writes these bytes behind the version and the salt; comparing hashes the
  candidate with the salt found in the hash, as bcrypt does.
\<close>

definition toy_hash :: "string \<Rightarrow> nat \<Rightarrow> string \<Rightarrow> string" where
  "toy_hash pw rounds s = ''$2b$'' @ s @ ''$'' @ take 72 pw"

definition toy_compare :: "string \<Rightarrow> string \<Rightarrow> bool" where
  "toy_compare pw h = (toy_hash pw 10 (takeWhile (\<lambda>ch. ch \<noteq> CHR ''$'') (drop 4 h)) = h)"

definition engine_fifo :: ext where
  "engine_fifo =
     \<lparr> order_projects = sort_projects,
       order_conventions = (\<lambda>d rows. sort_dir d c_createdAt rows),
       order_partners = (\<lambda>d rows. sort_dir d pa_name rows),
       order_advances = (\<lambda>d rows. sort_dir d fa_referenceDate rows),
       sql_like = like_match,
       bcrypt_hash = toy_hash,
       bcrypt_compare = toy_compare,
       zod_integer = int4 \<rparr>"

definition engine_lifo :: ext where
  "engine_lifo =
     \<lparr> order_projects = (\<lambda>c d rows. sort_projects c d (rev rows)),
       order_conventions = (\<lambda>d rows. sort_dir d c_createdAt (rev rows)),
       order_partners = (\<lambda>d rows. sort_dir d pa_name (rev rows)),
       order_advances = (\<lambda>d rows. sort_dir d fa_referenceDate (rev rows)),
       sql_like = like_match,
       bcrypt_hash = toy_hash,
       bcrypt_compare = toy_compare,
       zod_integer = int4 \<rparr>"

text \<open>Rows for the examples.\<close>

definition example_project :: "int \<Rightarrow> string \<Rightarrow> decimal \<Rightarrow> time \<Rightarrow> project" where
  "example_project i ident b t =
     \<lparr> p_id = i, p_identifier = ident, p_title = ''Piste rurale'', p_axis = ''A1'',
       p_domain = ''Infrastructure'', p_region = ''Souss-Massa'', p_province = ''Taroudant'',
       p_commune = ''Aoulouz'', p_budget = b, p_engagements = Some 0, p_payments = Some 0,
       p_physicalProgress = Some 0, p_status = ''active'', p_createdAt = t, p_updatedAt = t \<rparr>"

definition empty_store :: store where
  "empty_store =
     \<lparr> projects = [], conventions = [], partners = [], projectPartners = [],
       conventionProjects = [], financialAdvances = [], localUsers = [] \<rparr>"

definition two_projects :: store where
  "two_projects =
     empty_store\<lparr>projects := [example_project 1 ''P-001'' 50000 10, example_project 2 ''P-002'' 50000 20]\<rparr>"

text \<open>
  A store with the three test users of the project guide (\<open>admin\<close>, \<open>user1\<close>,
  \<open>superviseur1\<close>, all with the password \<open>admin123\<close>), a request with nothing in it, and
  the moment of a request.
\<close>

definition example_user :: "int \<Rightarrow> string \<Rightarrow> string \<Rightarrow> local_user" where
  "example_user i name r =
     \<lparr> u_id = i, u_username = name, u_password = toy_hash ''admin123'' 10 ''c2FsdA'',
       u_role = r, u_createdAt = 1, u_updatedAt = 1 \<rparr>"

definition seeded_store :: store where
  "seeded_store =
     two_projects\<lparr>localUsers :=
       [example_user 1 ''admin'' ''admin'', example_user 2 ''user1'' ''user'',
        example_user 3 ''superviseur1'' ''superviseur'']\<rparr>"

definition blank_request :: "route \<Rightarrow> request" where
  "blank_request r =
     \<lparr> req_route = r, req_id = None, req_search = None, req_sortBy = None,
       req_sortOrder = None, req_body = NoBody \<rparr>"

definition example_ctx :: ctx where
  "example_ctx = \<lparr> now = 100, nextval = 7, salt = ''c2FsdA'' \<rparr>"

definition example_insert_project :: "string \<Rightarrow> insert_project" where
  "example_insert_project ident =
     \<lparr> ip_identifier = ident, ip_title = ''Eau potable'', ip_axis = ''A2'',
       ip_domain = ''Eau'', ip_region = ''Souss-Massa'', ip_province = ''Tiznit'',
       ip_commune = ''Anzi'', ip_budget = 120000, ip_engagements = None, ip_payments = None,
       ip_physicalProgress = None, ip_status = None \<rparr>"

definition empty_patch :: partial_project where
  "empty_patch =
     \<lparr> pt_identifier = None, pt_title = None, pt_axis = None, pt_domain = None,
       pt_region = None, pt_province = None, pt_commune = None, pt_budget = None,
       pt_engagements = None, pt_payments = None, pt_physicalProgress = None,
       pt_status = None \<rparr>"

definition example_contribution :: insert_project_partner where
  "example_contribution =
     \<lparr> ipp_projectId = 0, ipp_partnerId = 1, ipp_year = 2025, ipp_plannedContribution = 300000,
       ipp_actualContribution = None, ipp_status = None \<rparr>"

definition example_link :: insert_convention_project where
  "example_link = \<lparr> icp_conventionId = 0, icp_projectId = 2 \<rparr>"

text \<open>Two passwords of 73 bytes that differ in the last byte only, and a new user.\<close>

definition long_password :: "char \<Rightarrow> string" where
  "long_password ch = replicate 72 (CHR ''a'') @ [ch]"

definition example_insert_user :: "string \<Rightarrow> insert_local_user" where
  "example_insert_user pw = \<lparr> iu_username = ''agent'', iu_password = pw, iu_role = None \<rparr>"

definition example_new_user :: "string \<Rightarrow> local_user" where
  "example_new_user pw =
     \<lparr> u_id = 7, u_username = ''agent'', u_password = toy_hash pw 10 ''c2FsdA'',
       u_role = ''user'', u_createdAt = 100, u_updatedAt = 100 \<rparr>"

section \<open>Properties of the project list\<close>

lemma ordered_sort_dir: "ordered d key (sort_dir d key rows)"
proof (cases d)
  case Asc
  have "sorted (map key (sort_key key rows))" by simp
  then show ?thesis using Asc by (simp add: sorted_wrt_map)
next
  case Desc
  have "sorted (map key (sort_key key (rev rows)))" by simp
  then have "sorted_wrt (\<lambda>a b. key a \<le> key b) (sort_key key (rev rows))"
    by (simp add: sorted_wrt_map)
  then show ?thesis using Desc by (simp add: sorted_wrt_rev)
qed

lemma mset_sort_dir: "mset (sort_dir d key rows) = mset rows"
  by (cases d) simp_all

lemma mset_sort_projects: "mset (sort_projects c d rows) = mset rows"
  by (cases c) (simp_all add: mset_sort_dir)

lemma project_ordered_sort_projects: "project_ordered c d (sort_projects c d rows)"
  by (cases c) (simp_all add: ordered_sort_dir)

lemma sql_order_by_fifo: "sql_order_by engine_fifo"
  by (simp add: sql_order_by_def engine_fifo_def mset_sort_projects project_ordered_sort_projects)

lemma sql_order_by_lifo: "sql_order_by engine_lifo"
  by (simp add: sql_order_by_def engine_lifo_def mset_sort_projects project_ordered_sort_projects)


lemma order_projects_mset: "sql_order_by X \<Longrightarrow> mset (order_projects X c d rows) = mset rows"
  by (simp add: sql_order_by_def)

lemma order_projects_createdAt:
  "sql_order_by X \<Longrightarrow> ordered d p_createdAt (order_projects X CreatedAt d rows)"
proof -
  assume "sql_order_by X"
  then have "project_ordered CreatedAt d (order_projects X CreatedAt d rows)"
    unfolding sql_order_by_def by blast
  then show ?thesis by simp
qed

lemma order_projects_budget:
  "sql_order_by X \<Longrightarrow> ordered d p_budget (order_projects X Budget d rows)"
proof -
  assume "sql_order_by X"
  then have "project_ordered Budget d (order_projects X Budget d rows)"
    unfolding sql_order_by_def by blast
  then show ?thesis by simp
qed

lemma getProjects_default:
  "getProjects X st search None None = order_projects X CreatedAt Asc (select_projects X st search)"
  by (simp add: getProjects_def)

lemma getProjects_budget_desc:
  "getProjects X st search (Some ''budget'') (Some ''desc'')
     = order_projects X Budget Desc (select_projects X st search)"
  by (simp add: getProjects_def)

lemma getProjects_fallback:
  assumes "sortBy \<notin> {''identifier'', ''title'', ''axis'', ''domain'', ''budget''}"
  shows "getProjects X st search (Some sortBy) sortOrder
           = order_projects X CreatedAt (if sortOrder = Some ''desc'' then Desc else Asc)
               (select_projects X st search)"
  using assms by (cases sortOrder) (simp_all add: getProjects_def Let_def)

lemma example_project_sel [simp]:
  "p_id (example_project i ident b t) = i"
  "p_identifier (example_project i ident b t) = ident"
  "p_budget (example_project i ident b t) = b"
  "p_createdAt (example_project i ident b t) = t"
  by (simp_all add: example_project_def)

lemma two_projects_rows:
  "select_projects X two_projects None
     = [example_project 1 ''P-001'' 50000 10, example_project 2 ''P-002'' 50000 20]"
  by (simp add: select_projects_def two_projects_def empty_store_def)

lemma sort_two_by_createdAt:
  "sort_key p_createdAt [example_project 1 ''P-001'' 50000 10, example_project 2 ''P-002'' 50000 20]
     = [example_project 1 ''P-001'' 50000 10, example_project 2 ''P-002'' 50000 20]"
  by simp

lemma getProjects_fifo_default:
  "getProjects engine_fifo two_projects None None None
     = [example_project 1 ''P-001'' 50000 10, example_project 2 ''P-002'' 50000 20]"
  by (simp add: getProjects_default two_projects_rows engine_fifo_def sort_two_by_createdAt)

text \<open>
  C4, as the claim states it: with no \<open>sortBy\<close> and no \<open>sortOrder\<close> the list is in
  descending order of \<open>createdAt\<close>. It is not: the parameter \<open>sortOrder\<close> defaults to
  \<open>"asc"\<close>, and on the store \<open>two_projects\<close> the older project comes first.
\<close>

theorem getProjects_default_not_descending:
  "\<not> ordered Desc p_createdAt (getProjects engine_fifo two_projects None None None)"
  by (simp add: getProjects_fifo_default)

text \<open>
  C4, amended: for every store, every search text and every database that answers
  \<open>ORDER BY\<close> by its contract, \<open>getProjects\<close> with no \<open>sortBy\<close> and no \<open>sortOrder\<close>
  returns the selected projects in ascending order of \<open>createdAt\<close>.
\<close>

theorem getProjects_default_ascending:
  assumes "sql_order_by X"
  shows "mset (getProjects X st search None None) = mset (select_projects X st search)
         \<and> ordered Asc p_createdAt (getProjects X st search None None)"
  using order_projects_mset [OF assms] order_projects_createdAt [OF assms, of Asc]
  by (simp only: getProjects_default simp_thms)

theorem getProjects_default_ascending_witness:
  "sql_order_by engine_fifo
   \<and> getProjects engine_fifo two_projects None None None
       = [example_project 1 ''P-001'' 50000 10, example_project 2 ''P-002'' 50000 20]
   \<and> ordered Asc p_createdAt (getProjects engine_fifo two_projects None None None)"
  using getProjects_default_ascending [OF sql_order_by_fifo, of two_projects None]
  by (simp only: sql_order_by_fifo getProjects_fifo_default simp_thms)


lemma sort_two_by_budget_lifo:
  "rev (sort_key p_budget
          (rev (rev [example_project 1 ''P-001'' 50000 10, example_project 2 ''P-002'' 50000 20])))
     = [example_project 2 ''P-002'' 50000 20, example_project 1 ''P-001'' 50000 10]"
  by simp

lemma getProjects_lifo_budget_desc:
  "getProjects engine_lifo two_projects None (Some ''budget'') (Some ''desc'')
     = [example_project 2 ''P-002'' 50000 20, example_project 1 ''P-001'' 50000 10]"
  by (simp add: getProjects_budget_desc two_projects_rows engine_lifo_def sort_two_by_budget_lifo)

text \<open>
  C9, as the claim states it: the list sorted by budget, descending, keeps projects of
  equal budget in the order of their insertion. The program asks for
  \<open>ORDER BY budget DESC\<close> and names no second key, so the order of equal budgets is the
  database's. \<open>engine_lifo\<close> answers every \<open>ORDER BY\<close> by the contract, and on the store
  \<open>two_projects\<close> (P-001 inserted before P-002, both of budget 50000) it returns P-002
  first.
\<close>

theorem getProjects_budget_ties_not_insertion_order:
  "sql_order_by engine_lifo
   \<and> projects two_projects
       = [example_project 1 ''P-001'' 50000 10, example_project 2 ''P-002'' 50000 20]
   \<and> getProjects engine_lifo two_projects None (Some ''budget'') (Some ''desc'')
       = [example_project 2 ''P-002'' 50000 20, example_project 1 ''P-001'' 50000 10]"
  by (simp add: sql_order_by_lifo getProjects_lifo_budget_desc)
     (simp add: two_projects_def empty_store_def)

text \<open>
  C9, amended: for every store, every search text and every database that answers
  \<open>ORDER BY\<close> by its contract, \<open>getProjects\<close> with \<open>sortBy = "budget"\<close> and
  \<open>sortOrder = "desc"\<close> returns the selected projects, each as often as selected, in
  non-increasing order of budget. (The order of projects of equal budget is not fixed by
  the program.)
\<close>

theorem getProjects_budget_desc_ordered:
  assumes "sql_order_by X"
  shows "mset (getProjects X st search (Some ''budget'') (Some ''desc''))
           = mset (select_projects X st search)
         \<and> sorted_wrt (\<lambda>a b. p_budget a \<ge> p_budget b)
             (getProjects X st search (Some ''budget'') (Some ''desc''))"
  using order_projects_mset [OF assms] order_projects_budget [OF assms, of Desc]
  by (simp add: getProjects_budget_desc)

theorem getProjects_budget_desc_ordered_witness:
  "sql_order_by engine_lifo
   \<and> mset (getProjects engine_lifo two_projects None (Some ''budget'') (Some ''desc''))
       = mset (select_projects engine_lifo two_projects None)
   \<and> sorted_wrt (\<lambda>a b. p_budget a \<ge> p_budget b)
       (getProjects engine_lifo two_projects None (Some ''budget'') (Some ''desc''))"
  using getProjects_budget_desc_ordered [OF sql_order_by_lifo, of two_projects None]
  by (simp only: sql_order_by_lifo simp_thms)

text \<open>
  C10: for every store and every \<open>sortBy\<close> that is none of \<open>identifier\<close>, \<open>title\<close>,
  \<open>axis\<close>, \<open>domain\<close>, \<open>budget\<close>, \<open>getProjects\<close> returns the selected projects ordered by
  \<open>createdAt\<close>: descending when \<open>sortOrder\<close> is \<open>"desc"\<close>, ascending when it is \<open>"asc"\<close> or
  absent. (The function has no failing branch: it is total.)
\<close>

theorem getProjects_unlisted_sortBy:
  assumes "sql_order_by X"
    and "sortBy \<notin> {''identifier'', ''title'', ''axis'', ''domain'', ''budget''}"
  shows "mset (getProjects X st search (Some sortBy) sortOrder) = mset (select_projects X st search)
         \<and> (sortOrder = Some ''desc'' \<longrightarrow>
               ordered Desc p_createdAt (getProjects X st search (Some sortBy) sortOrder))
         \<and> (sortOrder = Some ''asc'' \<or> sortOrder = None \<longrightarrow>
               ordered Asc p_createdAt (getProjects X st search (Some sortBy) sortOrder))"
proof -
  let ?d = "if sortOrder = Some ''desc'' then Desc else Asc"
  let ?q = "select_projects X st search"
  have res: "getProjects X st search (Some sortBy) sortOrder = order_projects X CreatedAt ?d ?q"
    using assms(2) by (rule getProjects_fallback)
  have perm: "mset (order_projects X CreatedAt ?d ?q) = mset ?q"
    using assms(1) by (rule order_projects_mset)
  have ord: "ordered ?d p_createdAt (order_projects X CreatedAt ?d ?q)"
    using assms(1) by (rule order_projects_createdAt)
  show ?thesis
    unfolding res
  proof (intro conjI impI)
    show "mset (order_projects X CreatedAt ?d ?q) = mset ?q" by (rule perm)
  next
    assume "sortOrder = Some ''desc''"
    then have "?d = Desc" by simp
    with ord show "ordered Desc p_createdAt (order_projects X CreatedAt ?d ?q)"
      by (simp only:)
  next
    assume "sortOrder = Some ''asc'' \<or> sortOrder = None"
    then have "?d = Asc" by auto
    with ord show "ordered Asc p_createdAt (order_projects X CreatedAt ?d ?q)"
      by (simp only:)
  qed
qed

lemma sort_two_by_createdAt_desc:
  "rev (sort_key p_createdAt
          (rev [example_project 1 ''P-001'' 50000 10, example_project 2 ''P-002'' 50000 20]))
     = [example_project 2 ''P-002'' 50000 20, example_project 1 ''P-001'' 50000 10]"
  by simp

lemma getProjects_fifo_fallback_desc:
  "getProjects engine_fifo two_projects None (Some ''createdAt'') (Some ''desc'')
     = [example_project 2 ''P-002'' 50000 20, example_project 1 ''P-001'' 50000 10]"
  by (simp add: getProjects_fallback two_projects_rows engine_fifo_def sort_two_by_createdAt_desc)

theorem getProjects_unlisted_sortBy_witness:
  "sql_order_by engine_fifo
   \<and> ''createdAt'' \<notin> {''identifier'', ''title'', ''axis'', ''domain'', ''budget''}
   \<and> getProjects engine_fifo two_projects None (Some ''createdAt'') (Some ''desc'')
       = [example_project 2 ''P-002'' 50000 20, example_project 1 ''P-001'' 50000 10]
   \<and> ordered Desc p_createdAt
       (getProjects engine_fifo two_projects None (Some ''createdAt'') (Some ''desc''))"
proof -
  have w: "''createdAt'' \<notin> {''identifier'', ''title'', ''axis'', ''domain'', ''budget''}"
    by simp
  show ?thesis
    using getProjects_unlisted_sortBy
            [OF sql_order_by_fifo w, of two_projects None "Some ''desc''"] w
    by (simp only: sql_order_by_fifo getProjects_fifo_fallback_desc simp_thms)
qed

section \<open>Authentication and authorization\<close>

lemma requireRole_table:
  "requireRole roles None = Some (reply 401 (Message ''Unauthorized''))"
  "requireRole roles (Some u) =
     (if u_role u \<in> set roles then None
      else Some (reply 403 (Message ''Insufficient permissions'')))"
  by (simp_all add: requireRole_def)

lemma canRead_iff:
  "canRead (Some u) = None \<longleftrightarrow> u_role u \<in> {''admin'', ''user'', ''superviseur''}"
  by (auto simp: canRead_def requireRole_table)

lemma canWrite_iff: "canWrite (Some u) = None \<longleftrightarrow> u_role u \<in> {''admin'', ''user''}"
  by (auto simp: canWrite_def requireRole_table)

lemma canManageUsers_iff: "canManageUsers (Some u) = None \<longleftrightarrow> u_role u = ''admin''"
  by (auto simp: canManageUsers_def requireRole_table)

lemma canWrite_refuses_superviseur:
  "u_role u = ''superviseur'' \<Longrightarrow>
     canWrite (Some u) = Some (reply 403 (Message ''Insufficient permissions''))"
  by (simp add: canWrite_def requireRole_table)

lemma junction_routes_ask_no_role:
  "middleware GetProjectPartners (Some u) = None"
  "middleware PostProjectPartner (Some u) = None"
  "middleware GetConventionProjects (Some u) = None"
  "middleware PostConventionProject (Some u) = None"
  by (simp_all add: requireAuth_def)

text \<open>
  C1: a principal with role \<open>superviseur\<close> who posts to \<open>/api/projects/:id/partners\<close> or
  to \<open>/api/conventions/:id/projects\<close> is to be refused (403). Both routes are registered
  with \<open>requireAuth\<close>, which looks at no role: on \<open>seeded_store\<close>, \<open>superviseur1\<close> gets 201
  and the row is in the table.
\<close>

theorem superviseur_creates_junction_rows:
  "serve engine_fifo example_ctx
     ((blank_request PostProjectPartner)
        \<lparr>req_id := Some 1, req_body := ProjectPartnerData example_contribution\<rparr>)
     seeded_store (Some (example_user 3 ''superviseur1'' ''superviseur''))
   = (reply 201
        (ProjectPartnerJson
           \<lparr>pp_id = 7, pp_projectId = 1, pp_partnerId = 1, pp_year = 2025,
             pp_plannedContribution = 300000, pp_actualContribution = Some 0,
             pp_status = ''pending''\<rparr>),
      seeded_store
        \<lparr>projectPartners :=
           [\<lparr>pp_id = 7, pp_projectId = 1, pp_partnerId = 1, pp_year = 2025,
              pp_plannedContribution = 300000, pp_actualContribution = Some 0,
              pp_status = ''pending''\<rparr>]\<rparr>,
      Some (example_user 3 ''superviseur1'' ''superviseur''))
   \<and> serve engine_fifo example_ctx
       ((blank_request PostConventionProject)
          \<lparr>req_id := Some 4, req_body := ConventionProjectData example_link\<rparr>)
       seeded_store (Some (example_user 3 ''superviseur1'' ''superviseur''))
     = (reply 201
          (ConventionProjectJson
             \<lparr>cp_id = 7, cp_conventionId = 4, cp_projectId = 2, cp_createdAt = 100\<rparr>),
        seeded_store
          \<lparr>conventionProjects :=
             [\<lparr>cp_id = 7, cp_conventionId = 4, cp_projectId = 2, cp_createdAt = 100\<rparr>]\<rparr>,
        Some (example_user 3 ''superviseur1'' ''superviseur''))"
  by code_simp

lemma auth_user_returns_session_user:
  "req_route req = AuthUser \<Longrightarrow>
     serve X c req st (Some u) = (reply 200 (SessionUser u), st, Some u)"
  by (simp add: serve_def)

lemma login_stores_row_in_session:
  assumes "req_route req = AuthLogin"
    and "req_body req = Credentials (Some name) (Some pw)"
    and "validateLocalUser X st name pw = Some u"
    and "name \<noteq> []" and "pw \<noteq> []"
  shows "serve X c req st s
           = (reply 200 (LoginSuccessful (u_id u) (u_username u) (u_role u)), st, Some u)"
  using assms by (simp add: serve_def)

text \<open>
  C2: no response carries the stored password field of a user. The login response and
  the user routes build their objects without it; \<open>GET /api/auth/user\<close> sends
  \<open>req.session.localUser\<close>, the whole row that the login stored in the session. On
  \<open>seeded_store\<close>: \<open>admin\<close> logs in, asks for \<open>/api/auth/user\<close>, and the body holds the
  \<open>password\<close> column of the row.
\<close>

theorem auth_user_sends_password_field:
  "serve engine_fifo example_ctx
     ((blank_request AuthLogin)\<lparr>req_body := Credentials (Some ''admin'') (Some ''admin123'')\<rparr>)
     seeded_store None
   = (reply 200 (LoginSuccessful 1 ''admin'' ''admin''), seeded_store,
      Some (example_user 1 ''admin'' ''admin''))
   \<and> serve engine_fifo example_ctx (blank_request AuthUser) seeded_store
       (Some (example_user 1 ''admin'' ''admin''))
     = (reply 200
          (SessionUser
             \<lparr>u_id = 1, u_username = ''admin'',
               u_password = toy_hash ''admin123'' 10 ''c2FsdA'',
               u_role = ''admin'', u_createdAt = 1, u_updatedAt = 1\<rparr>),
        seeded_store, Some (example_user 1 ''admin'' ''admin''))
   \<and> map u_password (localUsers seeded_store) ! 0 = toy_hash ''admin123'' 10 ''c2FsdA''"
  by code_simp

lemma middleware_no_session:
  "protected r \<Longrightarrow> middleware r None = Some (reply 401 (Message ''Unauthorized''))"
  by (cases r)
     (simp_all add: protected_def canRead_def canWrite_def canManageUsers_def
        requireRole_def requireAuth_def)

text \<open>
  C3: on every protected route, whatever the request carries, a request whose session
  holds no user is answered 401 by the middleware; the handler does not run, and the
  store and the session are as before.
\<close>

theorem unauthenticated_rejected:
  assumes "protected (req_route req)"
  shows "serve X c req st None = (reply 401 (Message ''Unauthorized''), st, None)"
  using middleware_no_session [OF assms] by (simp add: serve_def)

theorem unauthenticated_rejected_witness:
  "protected (req_route ((blank_request PostProject)
                 \<lparr>req_body := ProjectData (example_insert_project ''P-003'')\<rparr>))
   \<and> serve engine_fifo example_ctx
        ((blank_request PostProject)\<lparr>req_body := ProjectData (example_insert_project ''P-003'')\<rparr>)
        seeded_store None
       = (reply 401 (Message ''Unauthorized''), seeded_store, None)"
proof -
  have p: "protected (req_route ((blank_request PostProject)
                 \<lparr>req_body := ProjectData (example_insert_project ''P-003'')\<rparr>))"
    by (simp add: protected_def blank_request_def)
  show ?thesis using unauthenticated_rejected [OF p] p by simp
qed

section \<open>Create, update and delete of projects\<close>

lemma createProject_duplicate:
  "ip_identifier d \<in> p_identifier ` set (projects st) \<Longrightarrow>
     createProject c d st = Inl UniqueViolation"
  by (auto simp: createProject_def new_project_def list_ex_iff Let_def)

text \<open>
  C5, as the claim states it: creating a project whose identifier is taken fails with
  Conflict. The database refuses the insert, and the route answers as for any other
  error: 500, \<open>Failed to create project\<close>.
\<close>

theorem duplicate_identifier_answers_500:
  "serve engine_fifo example_ctx
     ((blank_request PostProject)\<lparr>req_body := ProjectData (example_insert_project ''P-001'')\<rparr>)
     seeded_store (Some (example_user 1 ''admin'' ''admin''))
   = (reply 500 (Message ''Failed to create project''), seeded_store,
      Some (example_user 1 ''admin'' ''admin''))"
  by code_simp

text \<open>
  C5, amended: for every store that holds a project with identifier X, creating another
  project with identifier X fails: \<open>createProject\<close> ends with the unique violation of the
  database, \<open>POST /api/projects\<close> (sent by a user who may write) answers 500
  \<open>Failed to create project\<close>, and the store is unchanged.
\<close>

theorem duplicate_identifier_refused:
  assumes "ip_identifier d \<in> p_identifier ` set (projects st)"
    and "u_role u = ''admin'' \<or> u_role u = ''user''"
    and "req_route req = PostProject" and "req_body req = ProjectData d"
  shows "createProject c d st = Inl UniqueViolation
         \<and> serve X c req st (Some u)
             = (reply 500 (Message ''Failed to create project''), st, Some u)"
proof -
  have mw: "canWrite (Some u) = None" using assms(2) by (auto simp: canWrite_iff)
  have cr: "createProject c d st = Inl UniqueViolation"
    using assms(1) by (rule createProject_duplicate)
  show ?thesis using mw cr assms(3,4) by (simp add: serve_def)
qed

theorem duplicate_identifier_refused_witness:
  "ip_identifier (example_insert_project ''P-001'') \<in> p_identifier ` set (projects seeded_store)
   \<and> createProject example_ctx (example_insert_project ''P-001'') seeded_store = Inl UniqueViolation
   \<and> serve engine_fifo example_ctx
       ((blank_request PostProject)\<lparr>req_body := ProjectData (example_insert_project ''P-001'')\<rparr>)
       seeded_store (Some (example_user 1 ''admin'' ''admin''))
     = (reply 500 (Message ''Failed to create project''), seeded_store,
        Some (example_user 1 ''admin'' ''admin''))"
proof -
  have a: "ip_identifier (example_insert_project ''P-001'')
             \<in> p_identifier ` set (projects seeded_store)"
    by (simp add: example_insert_project_def seeded_store_def two_projects_def empty_store_def)
  have b: "u_role (example_user 1 ''admin'' ''admin'') = ''admin''
           \<or> u_role (example_user 1 ''admin'' ''admin'') = ''user''"
    by (simp add: example_user_def)
  have c: "req_route ((blank_request PostProject)
             \<lparr>req_body := ProjectData (example_insert_project ''P-001'')\<rparr>) = PostProject"
    by (simp add: blank_request_def)
  have d: "req_body ((blank_request PostProject)
             \<lparr>req_body := ProjectData (example_insert_project ''P-001'')\<rparr>)
             = ProjectData (example_insert_project ''P-001'')"
    by simp
  show ?thesis
    using duplicate_identifier_refused [OF a b c d, of example_ctx engine_fifo] a by simp
qed

lemma updateProject_absent:
  assumes "i \<notin> p_id ` set (projects st)" and "int4 i"
  shows "updateProject c i pt st = Inr (None, st)"
proof -
  have same: "map (\<lambda>p. if p_id p = i then set_project (now c) pt p else p) (projects st)
                = projects st"
    using assms(1) by (intro map_idI) auto
  have none: "find (\<lambda>p. p_id p = i) (projects st) = None"
    using assms(1) by (auto simp: find_None_iff)
  have ok: "\<not> list_ex (\<lambda>p. p_id p = i \<and>
                list_ex (\<lambda>q. p_id q \<noteq> i \<and> p_identifier q = p_identifier (set_project (now c) pt p))
                  (projects st))
              (projects st)"
    using assms(1) by (auto simp: list_ex_iff)
  show ?thesis
    using ok assms(2) by (simp add: updateProject_def same none)
qed

lemma updateProject_out_of_range: "\<not> int4 i \<Longrightarrow> updateProject c i pt st = Inl OutOfRange"
  by (simp add: updateProject_def)

lemma put_absent_project:
  assumes "i \<notin> p_id ` set (projects st)" and "int4 i"
    and "u_role u = ''admin'' \<or> u_role u = ''user''"
    and "req_route req = PutProject" and "req_id req = Some i"
    and "req_body req = ProjectPatch pt"
  shows "serve X c req st (Some u) = (reply 200 Undefined, st, Some u)"
proof -
  have mw: "canWrite (Some u) = None" using assms(3) by (auto simp: canWrite_iff)
  have up: "updateProject c i pt st = Inr (None, st)"
    using assms(1,2) by (rule updateProject_absent)
  show ?thesis using mw up assms(4,5,6) by (simp add: serve_def)
qed

text \<open>
  C6: for every store and every id that is not in the project table, updating project id
  with a valid partial payload is to fail with NotFound, the store unchanged. The store
  is unchanged, but nothing fails: \<open>updateProject\<close>, declared to return a project,
  returns \<open>undefined\<close>, and the route sends it with status 200 and an empty body, where
  \<open>GET /api/projects/:id\<close> answers 404 for the same id. On \<open>seeded_store\<close>, which has no
  project 99, \<open>admin\<close> puts the empty payload to \<open>/api/projects/99\<close>.
\<close>

theorem update_absent_project_answers_200:
  "getProject seeded_store 99 = Inr None
   \<and> serve engine_fifo example_ctx ((blank_request GetProject)\<lparr>req_id := Some 99\<rparr>)
       seeded_store (Some (example_user 1 ''admin'' ''admin''))
     = (reply 404 (Message ''Project not found''), seeded_store,
        Some (example_user 1 ''admin'' ''admin''))
   \<and> updateProject example_ctx 99 empty_patch seeded_store = Inr (None, seeded_store)
   \<and> serve engine_fifo example_ctx
       ((blank_request PutProject)\<lparr>req_id := Some 99, req_body := ProjectPatch empty_patch\<rparr>)
       seeded_store (Some (example_user 1 ''admin'' ''admin''))
     = (reply 200 Undefined, seeded_store, Some (example_user 1 ''admin'' ''admin''))"
  by code_simp

lemma deleteProject_absent:
  assumes "i \<notin> p_id ` set (projects st)" and "int4 i"
  shows "deleteProject i st = Inr st"
proof -
  have "filter (\<lambda>p. p_id p \<noteq> i) (projects st) = projects st"
    using assms(1) by (auto simp: filter_id_conv)
  then show ?thesis using assms(2) by (simp add: deleteProject_def)
qed

lemma deleteConvention_absent:
  assumes "i \<notin> c_id ` set (conventions st)" and "int4 i"
  shows "deleteConvention i st = Inr st"
proof -
  have "filter (\<lambda>v. c_id v \<noteq> i) (conventions st) = conventions st"
    using assms(1) by (auto simp: filter_id_conv)
  then show ?thesis using assms(2) by (simp add: deleteConvention_def)
qed

lemma delete_out_of_range:
  "\<not> int4 i \<Longrightarrow> deleteProject i st = Inl OutOfRange"
  "\<not> int4 i \<Longrightarrow> deleteConvention i st = Inl OutOfRange"
  by (simp_all add: deleteProject_def deleteConvention_def)

text \<open>
  C7, as the claim states it: deleting an id that is not in the table fails with NotFound
  instead of reporting success. \<open>DELETE /api/projects/99\<close> on a store without project 99
  answers 204.
\<close>

theorem delete_absent_project_answers_204:
  "getProject seeded_store 99 = Inr None
   \<and> serve engine_fifo example_ctx ((blank_request DeleteProject)\<lparr>req_id := Some 99\<rparr>)
       seeded_store (Some (example_user 1 ''admin'' ''admin''))
     = (reply 204 NoContent, seeded_store, Some (example_user 1 ''admin'' ''admin''))"
  by code_simp

text \<open>
  C7, amended: for every store and every id that is not in the table, deleting a project
  or a convention by that id leaves the store unchanged and never answers NotFound. When
  the id is in the range of the \<open>id\<close> column (four bytes), the delete reports success:
  the storage function returns without error and the route (called by a user who may
  write) answers 204. When the id is outside that range, the database refuses the
  statement, and the route answers 500.
\<close>

theorem delete_absent_reports_success:
  assumes "u_role u = ''admin'' \<or> u_role u = ''user''" and "req_id req = Some i"
  shows "(int4 i \<and> i \<notin> p_id ` set (projects st) \<and> req_route req = DeleteProject \<longrightarrow>
            deleteProject i st = Inr st
            \<and> serve X c req st (Some u) = (reply 204 NoContent, st, Some u))
         \<and> (int4 i \<and> i \<notin> c_id ` set (conventions st) \<and> req_route req = DeleteConvention \<longrightarrow>
            deleteConvention i st = Inr st
            \<and> serve X c req st (Some u) = (reply 204 NoContent, st, Some u))
         \<and> (\<not> int4 i \<and> req_route req = DeleteProject \<longrightarrow>
            deleteProject i st = Inl OutOfRange
            \<and> serve X c req st (Some u)
                = (reply 500 (Message ''Failed to delete project''), st, Some u))
         \<and> (\<not> int4 i \<and> req_route req = DeleteConvention \<longrightarrow>
            deleteConvention i st = Inl OutOfRange
            \<and> serve X c req st (Some u)
                = (reply 500 (Message ''Failed to delete convention''), st, Some u))"
proof -
  have mw: "canWrite (Some u) = None" using assms(1) by (auto simp: canWrite_iff)
  show ?thesis
    using mw assms(2)
    by (simp add: serve_def deleteProject_absent deleteConvention_absent delete_out_of_range)
qed

theorem delete_absent_reports_success_witness:
  "int4 99 \<and> 99 \<notin> p_id ` set (projects seeded_store)
   \<and> deleteProject 99 seeded_store = Inr seeded_store
   \<and> serve engine_fifo example_ctx ((blank_request DeleteProject)\<lparr>req_id := Some 99\<rparr>)
       seeded_store (Some (example_user 2 ''user1'' ''user''))
     = (reply 204 NoContent, seeded_store, Some (example_user 2 ''user1'' ''user''))
   \<and> int4 5 \<and> 5 \<notin> c_id ` set (conventions seeded_store)
   \<and> deleteConvention 5 seeded_store = Inr seeded_store
   \<and> serve engine_fifo example_ctx ((blank_request DeleteConvention)\<lparr>req_id := Some 5\<rparr>)
       seeded_store (Some (example_user 2 ''user1'' ''user''))
     = (reply 204 NoContent, seeded_store, Some (example_user 2 ''user1'' ''user''))
   \<and> \<not> int4 99999999999
   \<and> deleteProject 99999999999 seeded_store = Inl OutOfRange
   \<and> serve engine_fifo example_ctx ((blank_request DeleteProject)\<lparr>req_id := Some 99999999999\<rparr>)
       seeded_store (Some (example_user 2 ''user1'' ''user''))
     = (reply 500 (Message ''Failed to delete project''), seeded_store,
        Some (example_user 2 ''user1'' ''user''))
   \<and> deleteConvention 99999999999 seeded_store = Inl OutOfRange
   \<and> serve engine_fifo example_ctx
       ((blank_request DeleteConvention)\<lparr>req_id := Some 99999999999\<rparr>)
       seeded_store (Some (example_user 2 ''user1'' ''user''))
     = (reply 500 (Message ''Failed to delete convention''), seeded_store,
        Some (example_user 2 ''user1'' ''user''))"
proof -
  have in1: "int4 99" and in2: "int4 5" and out: "\<not> int4 99999999999"
    by (simp_all add: int4_def)
  have a: "99 \<notin> p_id ` set (projects seeded_store)"
    by (simp add: seeded_store_def two_projects_def empty_store_def)
  have a': "5 \<notin> c_id ` set (conventions seeded_store)"
    by (simp add: seeded_store_def two_projects_def empty_store_def)
  have b: "u_role (example_user 2 ''user1'' ''user'') = ''admin''
           \<or> u_role (example_user 2 ''user1'' ''user'') = ''user''"
    by (simp add: example_user_def)
  have r1: "req_route ((blank_request DeleteProject)\<lparr>req_id := Some j\<rparr>) = DeleteProject"
    and r2: "req_route ((blank_request DeleteConvention)\<lparr>req_id := Some j\<rparr>) = DeleteConvention"
    for j by (simp_all add: blank_request_def)
  have d: "req_id ((blank_request r)\<lparr>req_id := Some j\<rparr>) = Some j" for r j
    by simp
  note t = delete_absent_reports_success
             [where u = "example_user 2 ''user1'' ''user''" and st = seeded_store
                and X = engine_fifo and c = example_ctx, OF b]
  show ?thesis
    using t [where req = "(blank_request DeleteProject)\<lparr>req_id := Some 99\<rparr>" and i = 99, OF d]
          t [where req = "(blank_request DeleteConvention)\<lparr>req_id := Some 5\<rparr>" and i = 5, OF d]
          t [where req = "(blank_request DeleteProject)\<lparr>req_id := Some 99999999999\<rparr>"
               and i = 99999999999, OF d]
          t [where req = "(blank_request DeleteConvention)\<lparr>req_id := Some 99999999999\<rparr>"
               and i = 99999999999, OF d]
          in1 in2 out a a' r1 r2
    by simp
qed

section \<open>Local users and their passwords\<close>

lemma find_append_fresh:
  "\<forall>y\<in>set xs. \<not> P y \<Longrightarrow> P x \<Longrightarrow> find P (xs @ [x]) = Some x"
  by (induction xs) auto

lemma createLocalUser_Inr:
  assumes "createLocalUser X c iu st = Inr (usr, st')"
  shows "u_username usr = iu_username iu"
    and "u_password usr = bcrypt_hash X (iu_password iu) 10 (salt c)"
    and "localUsers st' = localUsers st @ [usr]"
    and "\<forall>q\<in>set (localUsers st). u_username q \<noteq> iu_username iu"
  using assms
  by (auto simp: createLocalUser_def Let_def list_ex_iff split: if_splits)

lemma validate_after_create:
  assumes "createLocalUser X c iu st = Inr (usr, st')"
  shows "validateLocalUser X st' (iu_username iu) w
           = (if bcrypt_compare X w (u_password usr) then Some usr else None)"
proof -
  have "find (\<lambda>u. u_username u = iu_username iu) (localUsers st @ [usr]) = Some usr"
    using createLocalUser_Inr(1,4) [OF assms] by (intro find_append_fresh) auto
  then show ?thesis
    by (simp add: validateLocalUser_def createLocalUser_Inr(3) [OF assms])
qed

text \<open>
  C8, as the claim states it: after \<open>createLocalUser(username, p)\<close>, validating with any
  \<open>w \<noteq> p\<close> returns no user. \<open>validateLocalUser\<close> returns the user whenever
  \<open>bcrypt.compare\<close> accepts, and bcrypt reads 72 bytes of a password: a user created with a
  password of 73 bytes is validated with another password that has the same first 72
  bytes.
\<close>

theorem validate_accepts_other_password:
  "long_password (CHR ''1'') \<noteq> long_password (CHR ''2'')
   \<and> createLocalUser engine_fifo example_ctx (example_insert_user (long_password (CHR ''1'')))
       seeded_store
     = Inr (example_new_user (long_password (CHR ''1'')),
            seeded_store\<lparr>localUsers :=
              localUsers seeded_store @ [example_new_user (long_password (CHR ''1''))]\<rparr>)
   \<and> validateLocalUser engine_fifo
       (seeded_store\<lparr>localUsers :=
          localUsers seeded_store @ [example_new_user (long_password (CHR ''1''))]\<rparr>)
       ''agent'' (long_password (CHR ''2''))
     = Some (example_new_user (long_password (CHR ''1'')))"
  by code_simp

text \<open>
  C8, amended: for every username and password \<open>p\<close>, after \<open>createLocalUser(username, p)\<close>
  has succeeded, the persisted password field is \<open>bcrypt.hash(p, 10)\<close>, and
  \<open>validateLocalUser(username, w)\<close> returns the user exactly when \<open>bcrypt.compare\<close> accepts
  \<open>w\<close> for that hash. So it returns the user for \<open>p\<close> (bcrypt accepts the password it
  hashed), it returns no user for every \<open>w\<close> that bcrypt rejects, and the persisted field
  differs from \<open>p\<close> as the hash does.
\<close>

theorem createLocalUser_then_validate:
  assumes "createLocalUser X c iu st = Inr (usr, st')"
  shows "u_password usr = bcrypt_hash X (iu_password iu) 10 (salt c)
         \<and> (\<forall>w. validateLocalUser X st' (iu_username iu) w
                  = (if bcrypt_compare X w (bcrypt_hash X (iu_password iu) 10 (salt c))
                     then Some usr else None))
         \<and> (bcrypt_compare X (iu_password iu) (bcrypt_hash X (iu_password iu) 10 (salt c)) \<longrightarrow>
              validateLocalUser X st' (iu_username iu) (iu_password iu) = Some usr)
         \<and> (\<forall>w. \<not> bcrypt_compare X w (bcrypt_hash X (iu_password iu) 10 (salt c)) \<longrightarrow>
                  validateLocalUser X st' (iu_username iu) w = None)
         \<and> (bcrypt_hash X (iu_password iu) 10 (salt c) \<noteq> iu_password iu \<longrightarrow>
              u_password usr \<noteq> iu_password iu)"
  using validate_after_create [OF assms] createLocalUser_Inr(2) [OF assms] by simp

theorem createLocalUser_then_validate_witness:
  "createLocalUser engine_fifo example_ctx (example_insert_user ''p1'') seeded_store
     = Inr (example_new_user ''p1'',
            seeded_store\<lparr>localUsers := localUsers seeded_store @ [example_new_user ''p1'']\<rparr>)
   \<and> validateLocalUser engine_fifo
       (seeded_store\<lparr>localUsers := localUsers seeded_store @ [example_new_user ''p1'']\<rparr>)
       ''agent'' ''p1''
     = Some (example_new_user ''p1'')
   \<and> validateLocalUser engine_fifo
       (seeded_store\<lparr>localUsers := localUsers seeded_store @ [example_new_user ''p1'']\<rparr>)
       ''agent'' ''wrong''
     = None
   \<and> u_password (example_new_user ''p1'') \<noteq> ''p1''"
proof -
  let ?st' = "seeded_store\<lparr>localUsers := localUsers seeded_store @ [example_new_user ''p1'']\<rparr>"
  have cr: "createLocalUser engine_fifo example_ctx (example_insert_user ''p1'') seeded_store
              = Inr (example_new_user ''p1'', ?st')"
    by code_simp
  have name: "iu_username (example_insert_user ''p1'') = ''agent''"
    and pw: "iu_password (example_insert_user ''p1'') = ''p1''"
    by (simp_all add: example_insert_user_def)
  have acc: "bcrypt_compare engine_fifo ''p1'' (bcrypt_hash engine_fifo ''p1'' 10 (salt example_ctx))"
    by code_simp
  have rej: "\<not> bcrypt_compare engine_fifo ''wrong'' (bcrypt_hash engine_fifo ''p1'' 10 (salt example_ctx))"
    by code_simp
  have neq: "bcrypt_hash engine_fifo ''p1'' 10 (salt example_ctx) \<noteq> ''p1''"
    by code_simp
  show ?thesis
    using createLocalUser_then_validate [OF cr] cr acc rej neq
    by (simp add: name pw)
qed

end
